theory Spec2Isabelle
  imports Complex_Main "HOL-Library.Word"
begin

section \<open>The actuator driver interface (include/zephyr/drivers/actuator.h)\<close>

text \<open>
  The header declares a fixed-point value type, two enumerations, a table of fourteen
  optional callbacks (\<open>struct actuator_driver_api\<close>) and fourteen inline functions
  \<open>z_impl_actuator_*\<close> that look a callback up and call it. The embedding follows the
  header declaration by declaration.
\<close>

subsection \<open>Fixed-point values\<close>

type_synonym int32_t = "32 word"

text \<open>
  \<open>struct actuator_value\<close>: two \<open>int32_t\<close> fields, read as two's complement with
  \<open>sint\<close>. The second field is spelt \<open>factional_value\<close> in the header.
\<close>

record actuator_value =
  integer_value :: int32_t
  factional_value :: int32_t

text \<open>
  The header's formula for the value a pair denotes: \<open>val1 + val2 * 10^(-6)\<close>, as an
  exact rational.
\<close>

definition actuator_value_to_rat :: "actuator_value \<Rightarrow> rat" where
  "actuator_value_to_rat v =
     of_int (sint (integer_value v)) + of_int (sint (factional_value v)) / 1000000"

subsection \<open>Enumerations\<close>

text \<open>
  A C enumerator is an \<open>int\<close> constant, numbered from 0 and counting up unless it is
  given a value, and an object of enumeration type can hold any value of the underlying
  integer type. So both enumerations are modelled as \<open>int\<close> with one constant per
  enumerator, each defined from its predecessor as the compiler numbers it.
\<close>

type_synonym actuator_setting = int

definition ACTUATOR_SETTING_TORQUE_KP :: actuator_setting where
  "ACTUATOR_SETTING_TORQUE_KP = 0"

definition ACTUATOR_SETTING_TORQUE_KI :: actuator_setting where
  "ACTUATOR_SETTING_TORQUE_KI = ACTUATOR_SETTING_TORQUE_KP + 1"

definition ACTUATOR_SETTING_TORQUE_KD :: actuator_setting where
  "ACTUATOR_SETTING_TORQUE_KD = ACTUATOR_SETTING_TORQUE_KI + 1"

definition ACTUATOR_SETTING_TORQUE_INTEGRATOR_LIMIT :: actuator_setting where
  "ACTUATOR_SETTING_TORQUE_INTEGRATOR_LIMIT = ACTUATOR_SETTING_TORQUE_KD + 1"

definition ACTUATOR_SETTING_TORQUE_MAX_OUTPUT_VALUE :: actuator_setting where
  "ACTUATOR_SETTING_TORQUE_MAX_OUTPUT_VALUE = ACTUATOR_SETTING_TORQUE_INTEGRATOR_LIMIT + 1"

definition ACTUATOR_SETTING_VELOCITY_KP :: actuator_setting where
  "ACTUATOR_SETTING_VELOCITY_KP = ACTUATOR_SETTING_TORQUE_MAX_OUTPUT_VALUE + 1"

definition ACTUATOR_SETTING_VELOCITY_KI :: actuator_setting where
  "ACTUATOR_SETTING_VELOCITY_KI = ACTUATOR_SETTING_VELOCITY_KP + 1"

definition ACTUATOR_SETTING_VELOCITY_KD :: actuator_setting where
  "ACTUATOR_SETTING_VELOCITY_KD = ACTUATOR_SETTING_VELOCITY_KI + 1"

definition ACTUATOR_SETTING_VELOCITY_INTEGRATOR_LIMIT :: actuator_setting where
  "ACTUATOR_SETTING_VELOCITY_INTEGRATOR_LIMIT = ACTUATOR_SETTING_VELOCITY_KD + 1"

definition ACTUATOR_SETTING_VELOCITY_MAX_OUTPUT_VALUE :: actuator_setting where
  "ACTUATOR_SETTING_VELOCITY_MAX_OUTPUT_VALUE = ACTUATOR_SETTING_VELOCITY_INTEGRATOR_LIMIT + 1"

definition ACTUATOR_SETTING_POSITION_KP :: actuator_setting where
  "ACTUATOR_SETTING_POSITION_KP = ACTUATOR_SETTING_VELOCITY_MAX_OUTPUT_VALUE + 1"

definition ACTUATOR_SETTING_POSITION_KI :: actuator_setting where
  "ACTUATOR_SETTING_POSITION_KI = ACTUATOR_SETTING_POSITION_KP + 1"

definition ACTUATOR_SETTING_POSITION_KD :: actuator_setting where
  "ACTUATOR_SETTING_POSITION_KD = ACTUATOR_SETTING_POSITION_KI + 1"

definition ACTUATOR_SETTING_POSITION_INTEGRATOR_LIMIT :: actuator_setting where
  "ACTUATOR_SETTING_POSITION_INTEGRATOR_LIMIT = ACTUATOR_SETTING_POSITION_KD + 1"

definition ACTUATOR_SETTING_POSITION_MAX_OUTPUT_VALUE :: actuator_setting where
  "ACTUATOR_SETTING_POSITION_MAX_OUTPUT_VALUE = ACTUATOR_SETTING_POSITION_INTEGRATOR_LIMIT + 1"

definition ACTUATOR_SETTING_MOTOR_POLES :: actuator_setting where
  "ACTUATOR_SETTING_MOTOR_POLES = ACTUATOR_SETTING_POSITION_MAX_OUTPUT_VALUE + 1"

definition ACTUATOR_SETTING_COMMON_COUNT :: actuator_setting where
  "ACTUATOR_SETTING_COMMON_COUNT = ACTUATOR_SETTING_MOTOR_POLES + 1"

definition ACTUATOR_SETTING_PRIV_START :: actuator_setting where
  "ACTUATOR_SETTING_PRIV_START = ACTUATOR_SETTING_COMMON_COUNT"

text \<open>\<open>INT16_MAX\<close> of \<open>stdint.h\<close>: the C standard fixes it at \<open>2^15 - 1\<close>.\<close>

definition INT16_MAX :: int where
  "INT16_MAX = 2 ^ 15 - 1"

definition ACTUATOR_SETTING_MAX :: actuator_setting where
  "ACTUATOR_SETTING_MAX = INT16_MAX"

text \<open>
  The enumerators the header documents as settings of their own, in declaration order
  (the sixteen before \<open>ACTUATOR_SETTING_COMMON_COUNT\<close>), and all nineteen enumerators.
\<close>

definition common_settings :: "actuator_setting list" where
  "common_settings =
     [ACTUATOR_SETTING_TORQUE_KP, ACTUATOR_SETTING_TORQUE_KI, ACTUATOR_SETTING_TORQUE_KD,
      ACTUATOR_SETTING_TORQUE_INTEGRATOR_LIMIT, ACTUATOR_SETTING_TORQUE_MAX_OUTPUT_VALUE,
      ACTUATOR_SETTING_VELOCITY_KP, ACTUATOR_SETTING_VELOCITY_KI, ACTUATOR_SETTING_VELOCITY_KD,
      ACTUATOR_SETTING_VELOCITY_INTEGRATOR_LIMIT, ACTUATOR_SETTING_VELOCITY_MAX_OUTPUT_VALUE,
      ACTUATOR_SETTING_POSITION_KP, ACTUATOR_SETTING_POSITION_KI, ACTUATOR_SETTING_POSITION_KD,
      ACTUATOR_SETTING_POSITION_INTEGRATOR_LIMIT, ACTUATOR_SETTING_POSITION_MAX_OUTPUT_VALUE,
      ACTUATOR_SETTING_MOTOR_POLES]"

definition setting_enumerators :: "actuator_setting list" where
  "setting_enumerators =
     common_settings @
     [ACTUATOR_SETTING_COMMON_COUNT, ACTUATOR_SETTING_PRIV_START, ACTUATOR_SETTING_MAX]"

type_synonym actuator_control_mode = int

definition ACTUATOR_TORQUE_CONTROL :: actuator_control_mode where
  "ACTUATOR_TORQUE_CONTROL = 0"

definition ACTUATOR_VELOCITY_CONTROL :: actuator_control_mode where
  "ACTUATOR_VELOCITY_CONTROL = ACTUATOR_TORQUE_CONTROL + 1"

definition ACTUATOR_POSITION_CONTROL :: actuator_control_mode where
  "ACTUATOR_POSITION_CONTROL = ACTUATOR_VELOCITY_CONTROL + 1"

subsection \<open>Pointers, callbacks and the capability table\<close>

text \<open>
  Pointers are addresses. A callback is a function of the program state \<open>'s\<close> (everything
  the driver can read and write: its own data and the memory behind the pointers it is
  given) that returns the C \<open>int\<close> result and the new state. A callback slot that is
  \<open>NULL\<close> is \<open>None\<close>.
\<close>

type_synonym dev_ptr = nat

type_synonym val_ptr = nat

type_synonym 's actuator_control_mode_set_t =
  "dev_ptr \<Rightarrow> actuator_control_mode \<Rightarrow> 's \<Rightarrow> int \<times> 's"

type_synonym 's actuator_enable_t = "dev_ptr \<Rightarrow> 's \<Rightarrow> int \<times> 's"

type_synonym 's actuator_disable_t = "dev_ptr \<Rightarrow> 's \<Rightarrow> int \<times> 's"

type_synonym 's actuator_setting_set_t =
  "dev_ptr \<Rightarrow> actuator_setting \<Rightarrow> val_ptr \<Rightarrow> 's \<Rightarrow> int \<times> 's"

type_synonym 's actuator_setting_get_t =
  "dev_ptr \<Rightarrow> actuator_setting \<Rightarrow> val_ptr \<Rightarrow> 's \<Rightarrow> int \<times> 's"

text \<open>
  The nine typedefs for the targets and the actual values have one signature, \<open>dev\<close> and
  a pointer to a value (\<open>const\<close> for a "set", written through by a "get").
\<close>

type_synonym 's actuator_torque_target_set_t =
  "dev_ptr \<Rightarrow> val_ptr \<Rightarrow> 's \<Rightarrow> int \<times> 's"

type_synonym 's actuator_torque_target_get_t =
  "dev_ptr \<Rightarrow> val_ptr \<Rightarrow> 's \<Rightarrow> int \<times> 's"

type_synonym 's actuator_velocity_target_set_t =
  "dev_ptr \<Rightarrow> val_ptr \<Rightarrow> 's \<Rightarrow> int \<times> 's"

type_synonym 's actuator_velocity_target_get_t =
  "dev_ptr \<Rightarrow> val_ptr \<Rightarrow> 's \<Rightarrow> int \<times> 's"

type_synonym 's actuator_position_target_set_t =
  "dev_ptr \<Rightarrow> val_ptr \<Rightarrow> 's \<Rightarrow> int \<times> 's"

type_synonym 's actuator_position_target_get_t =
  "dev_ptr \<Rightarrow> val_ptr \<Rightarrow> 's \<Rightarrow> int \<times> 's"

type_synonym 's actuator_torque_actual_get_t =
  "dev_ptr \<Rightarrow> val_ptr \<Rightarrow> 's \<Rightarrow> int \<times> 's"

type_synonym 's actuator_velocity_actual_get_t =
  "dev_ptr \<Rightarrow> val_ptr \<Rightarrow> 's \<Rightarrow> int \<times> 's"

type_synonym 's actuator_position_actual_get_t =
  "dev_ptr \<Rightarrow> val_ptr \<Rightarrow> 's \<Rightarrow> int \<times> 's"

record 's actuator_driver_api =
  control_mode_set :: "'s actuator_control_mode_set_t option"
  enable :: "'s actuator_enable_t option"
  disable :: "'s actuator_disable_t option"
  setting_set :: "'s actuator_setting_set_t option"
  setting_get :: "'s actuator_setting_get_t option"
  torque_target_set :: "'s actuator_torque_target_set_t option"
  torque_target_get :: "'s actuator_torque_target_get_t option"
  velocity_target_set :: "'s actuator_velocity_target_set_t option"
  velocity_target_get :: "'s actuator_velocity_target_get_t option"
  position_target_set :: "'s actuator_position_target_set_t option"
  position_target_get :: "'s actuator_position_target_get_t option"
  torque_actual_get :: "'s actuator_torque_actual_get_t option"
  velocity_actual_get :: "'s actuator_velocity_actual_get_t option"
  position_actual_get :: "'s actuator_position_actual_get_t option"

text \<open>
  Modelled from the spec: \<open>struct device\<close> is declared in \<open>zephyr/device.h\<close>, which is
  not part of the header. The specification calls it the actuator handle, an opaque
  reference from which the capability table is resolved, and the header reads one field
  of it, \<open>dev->api\<close>. Device objects are constant data, so they live in a read-only
  memory \<open>rom\<close> that maps a device pointer to the object behind it. The functions below
  dereference \<open>dev\<close> and \<open>dev->api\<close> without a check, as the C does: \<open>rom\<close> is total,
  every pointer handed to them designates a device with a table.
\<close>

record 's device =
  api :: "'s actuator_driver_api"

subsection \<open>The fourteen entry points\<close>

text \<open>
  Each \<open>z_impl_actuator_*\<close> has the same three lines. \<open>ENOSYS\<close> comes from \<open>errno.h\<close>,
  which is not part of the header; it is a parameter of every function.
\<close>

definition z_impl_actuator_control_mode_set ::
  "int \<Rightarrow> (dev_ptr \<Rightarrow> 's device) \<Rightarrow> dev_ptr \<Rightarrow> actuator_control_mode \<Rightarrow> 's \<Rightarrow> int \<times> 's" where
  "z_impl_actuator_control_mode_set ENOSYS rom dev mode s =
     (let api = api (rom dev) in
      case control_mode_set api of
        None \<Rightarrow> (- ENOSYS, s)
      | Some f \<Rightarrow> f dev mode s)"

definition z_impl_actuator_enable ::
  "int \<Rightarrow> (dev_ptr \<Rightarrow> 's device) \<Rightarrow> dev_ptr \<Rightarrow> 's \<Rightarrow> int \<times> 's" where
  "z_impl_actuator_enable ENOSYS rom dev s =
     (let api = api (rom dev) in
      case enable api of
        None \<Rightarrow> (- ENOSYS, s)
      | Some f \<Rightarrow> f dev s)"

definition z_impl_actuator_disable ::
  "int \<Rightarrow> (dev_ptr \<Rightarrow> 's device) \<Rightarrow> dev_ptr \<Rightarrow> 's \<Rightarrow> int \<times> 's" where
  "z_impl_actuator_disable ENOSYS rom dev s =
     (let api = api (rom dev) in
      case disable api of
        None \<Rightarrow> (- ENOSYS, s)
      | Some f \<Rightarrow> f dev s)"

definition z_impl_actuator_setting_set ::
  "int \<Rightarrow> (dev_ptr \<Rightarrow> 's device) \<Rightarrow> dev_ptr \<Rightarrow> actuator_setting \<Rightarrow> val_ptr \<Rightarrow> 's \<Rightarrow> int \<times> 's" where
  "z_impl_actuator_setting_set ENOSYS rom dev sett val s =
     (let api = api (rom dev) in
      case setting_set api of
        None \<Rightarrow> (- ENOSYS, s)
      | Some f \<Rightarrow> f dev sett val s)"

definition z_impl_actuator_setting_get ::
  "int \<Rightarrow> (dev_ptr \<Rightarrow> 's device) \<Rightarrow> dev_ptr \<Rightarrow> actuator_setting \<Rightarrow> val_ptr \<Rightarrow> 's \<Rightarrow> int \<times> 's" where
  "z_impl_actuator_setting_get ENOSYS rom dev sett val s =
     (let api = api (rom dev) in
      case setting_get api of
        None \<Rightarrow> (- ENOSYS, s)
      | Some f \<Rightarrow> f dev sett val s)"

definition z_impl_actuator_torque_target_set ::
  "int \<Rightarrow> (dev_ptr \<Rightarrow> 's device) \<Rightarrow> dev_ptr \<Rightarrow> val_ptr \<Rightarrow> 's \<Rightarrow> int \<times> 's" where
  "z_impl_actuator_torque_target_set ENOSYS rom dev val s =
     (let api = api (rom dev) in
      case torque_target_set api of
        None \<Rightarrow> (- ENOSYS, s)
      | Some f \<Rightarrow> f dev val s)"

definition z_impl_actuator_torque_target_get ::
  "int \<Rightarrow> (dev_ptr \<Rightarrow> 's device) \<Rightarrow> dev_ptr \<Rightarrow> val_ptr \<Rightarrow> 's \<Rightarrow> int \<times> 's" where
  "z_impl_actuator_torque_target_get ENOSYS rom dev val s =
     (let api = api (rom dev) in
      case torque_target_get api of
        None \<Rightarrow> (- ENOSYS, s)
      | Some f \<Rightarrow> f dev val s)"

definition z_impl_actuator_velocity_target_set ::
  "int \<Rightarrow> (dev_ptr \<Rightarrow> 's device) \<Rightarrow> dev_ptr \<Rightarrow> val_ptr \<Rightarrow> 's \<Rightarrow> int \<times> 's" where
  "z_impl_actuator_velocity_target_set ENOSYS rom dev val s =
     (let api = api (rom dev) in
      case velocity_target_set api of
        None \<Rightarrow> (- ENOSYS, s)
      | Some f \<Rightarrow> f dev val s)"

definition z_impl_actuator_velocity_target_get ::
  "int \<Rightarrow> (dev_ptr \<Rightarrow> 's device) \<Rightarrow> dev_ptr \<Rightarrow> val_ptr \<Rightarrow> 's \<Rightarrow> int \<times> 's" where
  "z_impl_actuator_velocity_target_get ENOSYS rom dev val s =
     (let api = api (rom dev) in
      case velocity_target_get api of
        None \<Rightarrow> (- ENOSYS, s)
      | Some f \<Rightarrow> f dev val s)"

definition z_impl_actuator_position_target_set ::
  "int \<Rightarrow> (dev_ptr \<Rightarrow> 's device) \<Rightarrow> dev_ptr \<Rightarrow> val_ptr \<Rightarrow> 's \<Rightarrow> int \<times> 's" where
  "z_impl_actuator_position_target_set ENOSYS rom dev val s =
     (let api = api (rom dev) in
      case position_target_set api of
        None \<Rightarrow> (- ENOSYS, s)
      | Some f \<Rightarrow> f dev val s)"

definition z_impl_actuator_position_target_get ::
  "int \<Rightarrow> (dev_ptr \<Rightarrow> 's device) \<Rightarrow> dev_ptr \<Rightarrow> val_ptr \<Rightarrow> 's \<Rightarrow> int \<times> 's" where
  "z_impl_actuator_position_target_get ENOSYS rom dev val s =
     (let api = api (rom dev) in
      case position_target_get api of
        None \<Rightarrow> (- ENOSYS, s)
      | Some f \<Rightarrow> f dev val s)"

definition z_impl_actuator_torque_actual_get ::
  "int \<Rightarrow> (dev_ptr \<Rightarrow> 's device) \<Rightarrow> dev_ptr \<Rightarrow> val_ptr \<Rightarrow> 's \<Rightarrow> int \<times> 's" where
  "z_impl_actuator_torque_actual_get ENOSYS rom dev val s =
     (let api = api (rom dev) in
      case torque_actual_get api of
        None \<Rightarrow> (- ENOSYS, s)
      | Some f \<Rightarrow> f dev val s)"

definition z_impl_actuator_velocity_actual_get ::
  "int \<Rightarrow> (dev_ptr \<Rightarrow> 's device) \<Rightarrow> dev_ptr \<Rightarrow> val_ptr \<Rightarrow> 's \<Rightarrow> int \<times> 's" where
  "z_impl_actuator_velocity_actual_get ENOSYS rom dev val s =
     (let api = api (rom dev) in
      case velocity_actual_get api of
        None \<Rightarrow> (- ENOSYS, s)
      | Some f \<Rightarrow> f dev val s)"

definition z_impl_actuator_position_actual_get ::
  "int \<Rightarrow> (dev_ptr \<Rightarrow> 's device) \<Rightarrow> dev_ptr \<Rightarrow> val_ptr \<Rightarrow> 's \<Rightarrow> int \<times> 's" where
  "z_impl_actuator_position_actual_get ENOSYS rom dev val s =
     (let api = api (rom dev) in
      case position_actual_get api of
        None \<Rightarrow> (- ENOSYS, s)
      | Some f \<Rightarrow> f dev val s)"

subsection \<open>Operations as data\<close>

text \<open>
  To speak of "every operation" at once, a call of one of the fourteen entry points is a
  value: the entry point's name with its arguments other than \<open>dev\<close>. \<open>actuator_invoke\<close>
  runs the entry point a call names.
\<close>

datatype actuator_op =
    Control_mode_set actuator_control_mode
  | Enable
  | Disable
  | Setting_set actuator_setting val_ptr
  | Setting_get actuator_setting val_ptr
  | Torque_target_set val_ptr
  | Torque_target_get val_ptr
  | Velocity_target_set val_ptr
  | Velocity_target_get val_ptr
  | Position_target_set val_ptr
  | Position_target_get val_ptr
  | Torque_actual_get val_ptr
  | Velocity_actual_get val_ptr
  | Position_actual_get val_ptr

fun actuator_invoke ::
  "int \<Rightarrow> (dev_ptr \<Rightarrow> 's device) \<Rightarrow> dev_ptr \<Rightarrow> actuator_op \<Rightarrow> 's \<Rightarrow> int \<times> 's" where
  "actuator_invoke ENOSYS rom dev (Control_mode_set mode) s =
     z_impl_actuator_control_mode_set ENOSYS rom dev mode s"
| "actuator_invoke ENOSYS rom dev Enable s =
     z_impl_actuator_enable ENOSYS rom dev s"
| "actuator_invoke ENOSYS rom dev Disable s =
     z_impl_actuator_disable ENOSYS rom dev s"
| "actuator_invoke ENOSYS rom dev (Setting_set sett val) s =
     z_impl_actuator_setting_set ENOSYS rom dev sett val s"
| "actuator_invoke ENOSYS rom dev (Setting_get sett val) s =
     z_impl_actuator_setting_get ENOSYS rom dev sett val s"
| "actuator_invoke ENOSYS rom dev (Torque_target_set val) s =
     z_impl_actuator_torque_target_set ENOSYS rom dev val s"
| "actuator_invoke ENOSYS rom dev (Torque_target_get val) s =
     z_impl_actuator_torque_target_get ENOSYS rom dev val s"
| "actuator_invoke ENOSYS rom dev (Velocity_target_set val) s =
     z_impl_actuator_velocity_target_set ENOSYS rom dev val s"
| "actuator_invoke ENOSYS rom dev (Velocity_target_get val) s =
     z_impl_actuator_velocity_target_get ENOSYS rom dev val s"
| "actuator_invoke ENOSYS rom dev (Position_target_set val) s =
     z_impl_actuator_position_target_set ENOSYS rom dev val s"
| "actuator_invoke ENOSYS rom dev (Position_target_get val) s =
     z_impl_actuator_position_target_get ENOSYS rom dev val s"
| "actuator_invoke ENOSYS rom dev (Torque_actual_get val) s =
     z_impl_actuator_torque_actual_get ENOSYS rom dev val s"
| "actuator_invoke ENOSYS rom dev (Velocity_actual_get val) s =
     z_impl_actuator_velocity_actual_get ENOSYS rom dev val s"
| "actuator_invoke ENOSYS rom dev (Position_actual_get val) s =
     z_impl_actuator_position_actual_get ENOSYS rom dev val s"

text \<open>
  The slot of the table that belongs to a call, bound to the arguments of the call:
  \<open>None\<close> when the slot is \<open>NULL\<close>, otherwise the callback applied to \<open>dev\<close> and the
  call's arguments, still waiting for the state.
\<close>

fun op_slot ::
  "'s actuator_driver_api \<Rightarrow> dev_ptr \<Rightarrow> actuator_op \<Rightarrow> ('s \<Rightarrow> int \<times> 's) option" where
  "op_slot a dev (Control_mode_set mode) = map_option (\<lambda>f. f dev mode) (control_mode_set a)"
| "op_slot a dev Enable = map_option (\<lambda>f. f dev) (enable a)"
| "op_slot a dev Disable = map_option (\<lambda>f. f dev) (disable a)"
| "op_slot a dev (Setting_set sett val) = map_option (\<lambda>f. f dev sett val) (setting_set a)"
| "op_slot a dev (Setting_get sett val) = map_option (\<lambda>f. f dev sett val) (setting_get a)"
| "op_slot a dev (Torque_target_set val) = map_option (\<lambda>f. f dev val) (torque_target_set a)"
| "op_slot a dev (Torque_target_get val) = map_option (\<lambda>f. f dev val) (torque_target_get a)"
| "op_slot a dev (Velocity_target_set val) = map_option (\<lambda>f. f dev val) (velocity_target_set a)"
| "op_slot a dev (Velocity_target_get val) = map_option (\<lambda>f. f dev val) (velocity_target_get a)"
| "op_slot a dev (Position_target_set val) = map_option (\<lambda>f. f dev val) (position_target_set a)"
| "op_slot a dev (Position_target_get val) = map_option (\<lambda>f. f dev val) (position_target_get a)"
| "op_slot a dev (Torque_actual_get val) = map_option (\<lambda>f. f dev val) (torque_actual_get a)"
| "op_slot a dev (Velocity_actual_get val) = map_option (\<lambda>f. f dev val) (velocity_actual_get a)"
| "op_slot a dev (Position_actual_get val) = map_option (\<lambda>f. f dev val) (position_actual_get a)"

text \<open>Two tables hold the same callback in the slot of a call.\<close>

fun same_slot :: "actuator_op \<Rightarrow> 's actuator_driver_api \<Rightarrow> 's actuator_driver_api \<Rightarrow> bool" where
  "same_slot (Control_mode_set _) a b = (control_mode_set a = control_mode_set b)"
| "same_slot Enable a b = (enable a = enable b)"
| "same_slot Disable a b = (disable a = disable b)"
| "same_slot (Setting_set _ _) a b = (setting_set a = setting_set b)"
| "same_slot (Setting_get _ _) a b = (setting_get a = setting_get b)"
| "same_slot (Torque_target_set _) a b = (torque_target_set a = torque_target_set b)"
| "same_slot (Torque_target_get _) a b = (torque_target_get a = torque_target_get b)"
| "same_slot (Velocity_target_set _) a b = (velocity_target_set a = velocity_target_set b)"
| "same_slot (Velocity_target_get _) a b = (velocity_target_get a = velocity_target_get b)"
| "same_slot (Position_target_set _) a b = (position_target_set a = position_target_set b)"
| "same_slot (Position_target_get _) a b = (position_target_get a = position_target_get b)"
| "same_slot (Torque_actual_get _) a b = (torque_actual_get a = torque_actual_get b)"
| "same_slot (Velocity_actual_get _) a b = (velocity_actual_get a = velocity_actual_get b)"
| "same_slot (Position_actual_get _) a b = (position_actual_get a = position_actual_get b)"

text \<open>The table with every slot \<open>NULL\<close>, and a table cut down to the slot of one call.\<close>

definition no_capabilities :: "'s actuator_driver_api" where
  "no_capabilities =
     \<lparr>control_mode_set = None, enable = None, disable = None,
      setting_set = None, setting_get = None,
      torque_target_set = None, torque_target_get = None,
      velocity_target_set = None, velocity_target_get = None,
      position_target_set = None, position_target_get = None,
      torque_actual_get = None, velocity_actual_get = None, position_actual_get = None\<rparr>"

fun only_slot :: "actuator_op \<Rightarrow> 's actuator_driver_api \<Rightarrow> 's actuator_driver_api" where
  "only_slot (Control_mode_set _) a = no_capabilities\<lparr>control_mode_set := control_mode_set a\<rparr>"
| "only_slot Enable a = no_capabilities\<lparr>enable := enable a\<rparr>"
| "only_slot Disable a = no_capabilities\<lparr>disable := disable a\<rparr>"
| "only_slot (Setting_set _ _) a = no_capabilities\<lparr>setting_set := setting_set a\<rparr>"
| "only_slot (Setting_get _ _) a = no_capabilities\<lparr>setting_get := setting_get a\<rparr>"
| "only_slot (Torque_target_set _) a = no_capabilities\<lparr>torque_target_set := torque_target_set a\<rparr>"
| "only_slot (Torque_target_get _) a = no_capabilities\<lparr>torque_target_get := torque_target_get a\<rparr>"
| "only_slot (Velocity_target_set _) a = no_capabilities\<lparr>velocity_target_set := velocity_target_set a\<rparr>"
| "only_slot (Velocity_target_get _) a = no_capabilities\<lparr>velocity_target_get := velocity_target_get a\<rparr>"
| "only_slot (Position_target_set _) a = no_capabilities\<lparr>position_target_set := position_target_set a\<rparr>"
| "only_slot (Position_target_get _) a = no_capabilities\<lparr>position_target_get := position_target_get a\<rparr>"
| "only_slot (Torque_actual_get _) a = no_capabilities\<lparr>torque_actual_get := torque_actual_get a\<rparr>"
| "only_slot (Velocity_actual_get _) a = no_capabilities\<lparr>velocity_actual_get := velocity_actual_get a\<rparr>"
| "only_slot (Position_actual_get _) a = no_capabilities\<lparr>position_actual_get := position_actual_get a\<rparr>"

definition rom_of :: "'s actuator_driver_api \<Rightarrow> dev_ptr \<Rightarrow> 's device" where
  "rom_of a = (\<lambda>dev. \<lparr>api = a\<rparr>)"

subsection \<open>The dispatch scheme of the specification\<close>

text \<open>
  The specification gives one algorithm for all operations: resolve the actuator's
  capability table; if the requested slot is absent, fail with "not supported" without
  forwarding the call; otherwise forward all arguments unchanged and return the outcome
  unchanged. \<open>slot\<close> selects the operation's slot and \<open>call\<close> applies a callback to the
  operation's arguments. This definition follows the specification's words, not the
  header.
\<close>

definition generic_dispatch ::
  "int \<Rightarrow> (dev_ptr \<Rightarrow> 's device) \<Rightarrow> ('s actuator_driver_api \<Rightarrow> 'f option) \<Rightarrow>
   ('f \<Rightarrow> 's \<Rightarrow> int \<times> 's) \<Rightarrow> dev_ptr \<Rightarrow> 's \<Rightarrow> int \<times> 's" where
  "generic_dispatch ENOSYS rom slot call dev s =
     (if slot (api (rom dev)) = None then (- ENOSYS, s)
      else call (the (slot (api (rom dev)))) s)"

subsection \<open>Memory and a stub driver\<close>

text \<open>
  A program state with its memory written out, for the properties that speak of what a
  value pointer designates: the \<open>struct actuator_value\<close> objects in memory, by address,
  and the driver's private data \<open>'d\<close>.
\<close>

record 'd world =
  ram :: "val_ptr \<Rightarrow> actuator_value option"
  drv :: 'd

text \<open>
  A stub driver, used to run the entry points on concrete inputs. It keeps the control
  mode, the enable flag, the settings written so far and one value for each of torque,
  velocity and position. A "set" callback reads \<open>*val\<close> and stores it as it is; a "get"
  callback writes the stored value to \<open>*val\<close>. The stub returns 0 on success, \<open>-14\<close> when
  \<open>val\<close> points to no object and \<open>-2\<close> for a setting that was never written.
\<close>

record stub_data =
  st_mode :: actuator_control_mode
  st_enabled :: bool
  st_settings :: "(actuator_setting \<times> actuator_value) list"
  st_torque :: actuator_value
  st_velocity :: actuator_value
  st_position :: actuator_value

definition stub_control_mode_set :: "stub_data world actuator_control_mode_set_t" where
  "stub_control_mode_set dev mode s = (0, s\<lparr>drv := (drv s)\<lparr>st_mode := mode\<rparr>\<rparr>)"

definition stub_enable :: "stub_data world actuator_enable_t" where
  "stub_enable dev s = (0, s\<lparr>drv := (drv s)\<lparr>st_enabled := True\<rparr>\<rparr>)"

definition stub_disable :: "stub_data world actuator_disable_t" where
  "stub_disable dev s = (0, s\<lparr>drv := (drv s)\<lparr>st_enabled := False\<rparr>\<rparr>)"

definition stub_setting_set :: "stub_data world actuator_setting_set_t" where
  "stub_setting_set dev sett val s =
     (case ram s val of
        None \<Rightarrow> (- 14, s)
      | Some v \<Rightarrow> (0, s\<lparr>drv := (drv s)\<lparr>st_settings := (sett, v) # st_settings (drv s)\<rparr>\<rparr>))"

definition stub_setting_get :: "stub_data world actuator_setting_get_t" where
  "stub_setting_get dev sett val s =
     (case map_of (st_settings (drv s)) sett of
        None \<Rightarrow> (- 2, s)
      | Some v \<Rightarrow> (0, s\<lparr>ram := (ram s)(val \<mapsto> v)\<rparr>))"

definition stub_store ::
  "(actuator_value \<Rightarrow> stub_data \<Rightarrow> stub_data) \<Rightarrow>
   dev_ptr \<Rightarrow> val_ptr \<Rightarrow> stub_data world \<Rightarrow> int \<times> stub_data world" where
  "stub_store put dev val s =
     (case ram s val of
        None \<Rightarrow> (- 14, s)
      | Some v \<Rightarrow> (0, s\<lparr>drv := put v (drv s)\<rparr>))"

definition stub_load ::
  "(stub_data \<Rightarrow> actuator_value) \<Rightarrow>
   dev_ptr \<Rightarrow> val_ptr \<Rightarrow> stub_data world \<Rightarrow> int \<times> stub_data world" where
  "stub_load field dev val s = (0, s\<lparr>ram := (ram s)(val \<mapsto> field (drv s))\<rparr>)"

definition stub_api :: "stub_data world actuator_driver_api" where
  "stub_api =
     \<lparr>control_mode_set = Some stub_control_mode_set,
      enable = Some stub_enable,
      disable = Some stub_disable,
      setting_set = Some stub_setting_set,
      setting_get = Some stub_setting_get,
      torque_target_set = Some (stub_store (\<lambda>v d. d\<lparr>st_torque := v\<rparr>)),
      torque_target_get = Some (stub_load st_torque),
      velocity_target_set = Some (stub_store (\<lambda>v d. d\<lparr>st_velocity := v\<rparr>)),
      velocity_target_get = Some (stub_load st_velocity),
      position_target_set = Some (stub_store (\<lambda>v d. d\<lparr>st_position := v\<rparr>)),
      position_target_get = Some (stub_load st_position),
      torque_actual_get = Some (stub_load st_torque),
      velocity_actual_get = Some (stub_load st_velocity),
      position_actual_get = Some (stub_load st_position)\<rparr>"

text \<open>The stub of an actuator that supports position control only.\<close>

definition stub_position_api :: "stub_data world actuator_driver_api" where
  "stub_position_api =
     no_capabilities
       \<lparr>position_target_set := Some (stub_store (\<lambda>v d. d\<lparr>st_position := v\<rparr>)),
        position_target_get := Some (stub_load st_position),
        position_actual_get := Some (stub_load st_position)\<rparr>"

definition zero_value :: actuator_value where
  "zero_value = \<lparr>integer_value = 0, factional_value = 0\<rparr>"

text \<open>
  The starting state of the examples: address 7 holds 1.25, address 8 holds the pair
  \<open>(-2, +500000)\<close>, address 9 holds 0 and address 10 holds the pair \<open>(0, 1500000)\<close>;
  the stub is disabled, in torque mode, with no setting written.
\<close>

definition stub_init :: "stub_data world" where
  "stub_init =
     \<lparr>ram = [7 \<mapsto> \<lparr>integer_value = 1, factional_value = 250000\<rparr>,
             8 \<mapsto> \<lparr>integer_value = - 2, factional_value = 500000\<rparr>,
             9 \<mapsto> zero_value,
             10 \<mapsto> \<lparr>integer_value = 0, factional_value = 1500000\<rparr>],
      drv = \<lparr>st_mode = ACTUATOR_TORQUE_CONTROL, st_enabled = False, st_settings = [],
             st_torque = zero_value, st_velocity = zero_value, st_position = zero_value\<rparr>\<rparr>"

subsection \<open>Properties of a representation\<close>

text \<open>
  The two conventions of the header's examples, as predicates on a pair: the parts agree
  in sign (both non-negative or both non-positive), and the fractional part is below one
  unit in magnitude.
\<close>

definition signs_agree :: "actuator_value \<Rightarrow> bool" where
  "signs_agree v =
     ((0 \<le> sint (integer_value v) \<and> 0 \<le> sint (factional_value v)) \<or>
      (sint (integer_value v) \<le> 0 \<and> sint (factional_value v) \<le> 0))"

definition sub_unit :: "actuator_value \<Rightarrow> bool" where
  "sub_unit v = (\<bar>sint (factional_value v)\<bar> < 1000000)"

text \<open>
  Modelled from the spec: the header declares the value type and the formula that reads
  it, and has no function that builds a value from a number. The specification asks for
  a conversion from a rational whose parts agree in sign (\<open>-1.5\<close> becomes \<open>-1\<close> and
  \<open>-500000\<close>): both parts are cut towards zero, as a C cast to an integer does. The
  results are stored in \<open>int32_t\<close> fields, so they wrap when they do not fit.
\<close>

definition trunc_rat :: "rat \<Rightarrow> int" where
  "trunc_rat q = (if q < 0 then - \<lfloor>- q\<rfloor> else \<lfloor>q\<rfloor>)"

text \<open>
  Modelled from the spec: the integer part is the number cut towards zero, the
  fractional part is what is left, in millionths, cut towards zero again.
\<close>

definition actuator_value_from_rat :: "rat \<Rightarrow> actuator_value" where
  "actuator_value_from_rat q =
     (let i = trunc_rat q;
          f = trunc_rat ((q - of_int i) * 1000000)
      in \<lparr>integer_value = word_of_int i, factional_value = word_of_int f\<rparr>)"

section \<open>Properties\<close>

subsection \<open>Shared facts\<close>

lemmas z_impl_defs =
  z_impl_actuator_control_mode_set_def z_impl_actuator_enable_def z_impl_actuator_disable_def
  z_impl_actuator_setting_set_def z_impl_actuator_setting_get_def
  z_impl_actuator_torque_target_set_def z_impl_actuator_torque_target_get_def
  z_impl_actuator_velocity_target_set_def z_impl_actuator_velocity_target_get_def
  z_impl_actuator_position_target_set_def z_impl_actuator_position_target_get_def
  z_impl_actuator_torque_actual_get_def z_impl_actuator_velocity_actual_get_def
  z_impl_actuator_position_actual_get_def

lemmas setting_defs =
  ACTUATOR_SETTING_TORQUE_KP_def ACTUATOR_SETTING_TORQUE_KI_def ACTUATOR_SETTING_TORQUE_KD_def
  ACTUATOR_SETTING_TORQUE_INTEGRATOR_LIMIT_def ACTUATOR_SETTING_TORQUE_MAX_OUTPUT_VALUE_def
  ACTUATOR_SETTING_VELOCITY_KP_def ACTUATOR_SETTING_VELOCITY_KI_def ACTUATOR_SETTING_VELOCITY_KD_def
  ACTUATOR_SETTING_VELOCITY_INTEGRATOR_LIMIT_def ACTUATOR_SETTING_VELOCITY_MAX_OUTPUT_VALUE_def
  ACTUATOR_SETTING_POSITION_KP_def ACTUATOR_SETTING_POSITION_KI_def ACTUATOR_SETTING_POSITION_KD_def
  ACTUATOR_SETTING_POSITION_INTEGRATOR_LIMIT_def ACTUATOR_SETTING_POSITION_MAX_OUTPUT_VALUE_def
  ACTUATOR_SETTING_MOTOR_POLES_def ACTUATOR_SETTING_COMMON_COUNT_def
  ACTUATOR_SETTING_PRIV_START_def ACTUATOR_SETTING_MAX_def INT16_MAX_def

lemmas stub_defs =
  rom_of_def stub_api_def stub_position_api_def no_capabilities_def stub_init_def
  stub_control_mode_set_def stub_enable_def stub_disable_def stub_setting_set_def
  stub_setting_get_def stub_store_def stub_load_def zero_value_def

subsection \<open>An absent slot\<close>

text \<open>
  C1. Whichever of the fourteen entry points is called, when the slot it looks up is
  \<open>NULL\<close> it returns \<open>-ENOSYS\<close>, the same value for all fourteen, and hands the program
  state back as it received it. The other thirteen slots are arbitrary here, so no
  callback of the table has run: a callback is free to change the state and to return
  anything.
\<close>

theorem absent_slot_not_supported:
  "(control_mode_set (api (rom dev)) = None \<longrightarrow>
      z_impl_actuator_control_mode_set ENOSYS rom dev mode s = (- ENOSYS, s)) \<and>
   (enable (api (rom dev)) = None \<longrightarrow>
      z_impl_actuator_enable ENOSYS rom dev s = (- ENOSYS, s)) \<and>
   (disable (api (rom dev)) = None \<longrightarrow>
      z_impl_actuator_disable ENOSYS rom dev s = (- ENOSYS, s)) \<and>
   (setting_set (api (rom dev)) = None \<longrightarrow>
      z_impl_actuator_setting_set ENOSYS rom dev sett val s = (- ENOSYS, s)) \<and>
   (setting_get (api (rom dev)) = None \<longrightarrow>
      z_impl_actuator_setting_get ENOSYS rom dev sett val s = (- ENOSYS, s)) \<and>
   (torque_target_set (api (rom dev)) = None \<longrightarrow>
      z_impl_actuator_torque_target_set ENOSYS rom dev val s = (- ENOSYS, s)) \<and>
   (torque_target_get (api (rom dev)) = None \<longrightarrow>
      z_impl_actuator_torque_target_get ENOSYS rom dev val s = (- ENOSYS, s)) \<and>
   (velocity_target_set (api (rom dev)) = None \<longrightarrow>
      z_impl_actuator_velocity_target_set ENOSYS rom dev val s = (- ENOSYS, s)) \<and>
   (velocity_target_get (api (rom dev)) = None \<longrightarrow>
      z_impl_actuator_velocity_target_get ENOSYS rom dev val s = (- ENOSYS, s)) \<and>
   (position_target_set (api (rom dev)) = None \<longrightarrow>
      z_impl_actuator_position_target_set ENOSYS rom dev val s = (- ENOSYS, s)) \<and>
   (position_target_get (api (rom dev)) = None \<longrightarrow>
      z_impl_actuator_position_target_get ENOSYS rom dev val s = (- ENOSYS, s)) \<and>
   (torque_actual_get (api (rom dev)) = None \<longrightarrow>
      z_impl_actuator_torque_actual_get ENOSYS rom dev val s = (- ENOSYS, s)) \<and>
   (velocity_actual_get (api (rom dev)) = None \<longrightarrow>
      z_impl_actuator_velocity_actual_get ENOSYS rom dev val s = (- ENOSYS, s)) \<and>
   (position_actual_get (api (rom dev)) = None \<longrightarrow>
      z_impl_actuator_position_actual_get ENOSYS rom dev val s = (- ENOSYS, s))"
  by (intro conjI impI) (simp_all add: z_impl_defs)

text \<open>
  The theorem at the table with no capability at all, \<open>ENOSYS = 88\<close>: each entry point
  returns \<open>-88\<close> and the starting state.
\<close>

theorem absent_slot_not_supported_witness:
  "z_impl_actuator_control_mode_set 88 (rom_of no_capabilities) 0 ACTUATOR_VELOCITY_CONTROL
     stub_init = (- 88, stub_init) \<and>
   z_impl_actuator_enable 88 (rom_of no_capabilities) 0
     stub_init = (- 88, stub_init) \<and>
   z_impl_actuator_disable 88 (rom_of no_capabilities) 0
     stub_init = (- 88, stub_init) \<and>
   z_impl_actuator_setting_set 88 (rom_of no_capabilities) 0 ACTUATOR_SETTING_TORQUE_KP 9
     stub_init = (- 88, stub_init) \<and>
   z_impl_actuator_setting_get 88 (rom_of no_capabilities) 0 ACTUATOR_SETTING_TORQUE_KP 9
     stub_init = (- 88, stub_init) \<and>
   z_impl_actuator_torque_target_set 88 (rom_of no_capabilities) 0 9
     stub_init = (- 88, stub_init) \<and>
   z_impl_actuator_torque_target_get 88 (rom_of no_capabilities) 0 9
     stub_init = (- 88, stub_init) \<and>
   z_impl_actuator_velocity_target_set 88 (rom_of no_capabilities) 0 9
     stub_init = (- 88, stub_init) \<and>
   z_impl_actuator_velocity_target_get 88 (rom_of no_capabilities) 0 9
     stub_init = (- 88, stub_init) \<and>
   z_impl_actuator_position_target_set 88 (rom_of no_capabilities) 0 9
     stub_init = (- 88, stub_init) \<and>
   z_impl_actuator_position_target_get 88 (rom_of no_capabilities) 0 9
     stub_init = (- 88, stub_init) \<and>
   z_impl_actuator_torque_actual_get 88 (rom_of no_capabilities) 0 9
     stub_init = (- 88, stub_init) \<and>
   z_impl_actuator_velocity_actual_get 88 (rom_of no_capabilities) 0 9
     stub_init = (- 88, stub_init) \<and>
   z_impl_actuator_position_actual_get 88 (rom_of no_capabilities) 0 9
     stub_init = (- 88, stub_init)"
  using absent_slot_not_supported
    [where rom = "rom_of no_capabilities" and dev = 0 and ENOSYS = 88
       and mode = ACTUATOR_VELOCITY_CONTROL and sett = ACTUATOR_SETTING_TORQUE_KP
       and val = 9 and s = stub_init]
  by (simp add: rom_of_def no_capabilities_def)

subsection \<open>A present slot\<close>

text \<open>
  C2. Whichever of the fourteen entry points is called, when the slot it looks up holds
  a callback \<open>f\<close>, the call is \<open>f\<close> applied to the same \<open>dev\<close>, the same arguments in the
  same order and the same program state, and what \<open>f\<close> returns (result and new state) is
  what the entry point returns.
\<close>

theorem present_slot_forwards:
  "(\<forall>f. control_mode_set (api (rom dev)) = Some f \<longrightarrow>
      z_impl_actuator_control_mode_set ENOSYS rom dev mode s = f dev mode s) \<and>
   (\<forall>f. enable (api (rom dev)) = Some f \<longrightarrow>
      z_impl_actuator_enable ENOSYS rom dev s = f dev s) \<and>
   (\<forall>f. disable (api (rom dev)) = Some f \<longrightarrow>
      z_impl_actuator_disable ENOSYS rom dev s = f dev s) \<and>
   (\<forall>f. setting_set (api (rom dev)) = Some f \<longrightarrow>
      z_impl_actuator_setting_set ENOSYS rom dev sett val s = f dev sett val s) \<and>
   (\<forall>f. setting_get (api (rom dev)) = Some f \<longrightarrow>
      z_impl_actuator_setting_get ENOSYS rom dev sett val s = f dev sett val s) \<and>
   (\<forall>f. torque_target_set (api (rom dev)) = Some f \<longrightarrow>
      z_impl_actuator_torque_target_set ENOSYS rom dev val s = f dev val s) \<and>
   (\<forall>f. torque_target_get (api (rom dev)) = Some f \<longrightarrow>
      z_impl_actuator_torque_target_get ENOSYS rom dev val s = f dev val s) \<and>
   (\<forall>f. velocity_target_set (api (rom dev)) = Some f \<longrightarrow>
      z_impl_actuator_velocity_target_set ENOSYS rom dev val s = f dev val s) \<and>
   (\<forall>f. velocity_target_get (api (rom dev)) = Some f \<longrightarrow>
      z_impl_actuator_velocity_target_get ENOSYS rom dev val s = f dev val s) \<and>
   (\<forall>f. position_target_set (api (rom dev)) = Some f \<longrightarrow>
      z_impl_actuator_position_target_set ENOSYS rom dev val s = f dev val s) \<and>
   (\<forall>f. position_target_get (api (rom dev)) = Some f \<longrightarrow>
      z_impl_actuator_position_target_get ENOSYS rom dev val s = f dev val s) \<and>
   (\<forall>f. torque_actual_get (api (rom dev)) = Some f \<longrightarrow>
      z_impl_actuator_torque_actual_get ENOSYS rom dev val s = f dev val s) \<and>
   (\<forall>f. velocity_actual_get (api (rom dev)) = Some f \<longrightarrow>
      z_impl_actuator_velocity_actual_get ENOSYS rom dev val s = f dev val s) \<and>
   (\<forall>f. position_actual_get (api (rom dev)) = Some f \<longrightarrow>
      z_impl_actuator_position_actual_get ENOSYS rom dev val s = f dev val s)"
  by (intro conjI allI impI) (simp_all add: z_impl_defs)

text \<open>
  The theorem at the stub driver's table: each entry point is the stub's callback, run on
  device 0 with the arguments given and the starting state.
\<close>

theorem present_slot_forwards_witness:
  "z_impl_actuator_control_mode_set 88 (rom_of stub_api) 0 ACTUATOR_POSITION_CONTROL stub_init =
     stub_control_mode_set 0 ACTUATOR_POSITION_CONTROL stub_init \<and>
   z_impl_actuator_enable 88 (rom_of stub_api) 0 stub_init =
     stub_enable 0 stub_init \<and>
   z_impl_actuator_disable 88 (rom_of stub_api) 0 stub_init =
     stub_disable 0 stub_init \<and>
   z_impl_actuator_setting_set 88 (rom_of stub_api) 0 ACTUATOR_SETTING_TORQUE_KP 7 stub_init =
     stub_setting_set 0 ACTUATOR_SETTING_TORQUE_KP 7 stub_init \<and>
   z_impl_actuator_setting_get 88 (rom_of stub_api) 0 ACTUATOR_SETTING_TORQUE_KP 7 stub_init =
     stub_setting_get 0 ACTUATOR_SETTING_TORQUE_KP 7 stub_init \<and>
   z_impl_actuator_torque_target_set 88 (rom_of stub_api) 0 7 stub_init =
     stub_store (\<lambda>v d. d\<lparr>st_torque := v\<rparr>) 0 7 stub_init \<and>
   z_impl_actuator_torque_target_get 88 (rom_of stub_api) 0 7 stub_init =
     stub_load st_torque 0 7 stub_init \<and>
   z_impl_actuator_velocity_target_set 88 (rom_of stub_api) 0 7 stub_init =
     stub_store (\<lambda>v d. d\<lparr>st_velocity := v\<rparr>) 0 7 stub_init \<and>
   z_impl_actuator_velocity_target_get 88 (rom_of stub_api) 0 7 stub_init =
     stub_load st_velocity 0 7 stub_init \<and>
   z_impl_actuator_position_target_set 88 (rom_of stub_api) 0 7 stub_init =
     stub_store (\<lambda>v d. d\<lparr>st_position := v\<rparr>) 0 7 stub_init \<and>
   z_impl_actuator_position_target_get 88 (rom_of stub_api) 0 7 stub_init =
     stub_load st_position 0 7 stub_init \<and>
   z_impl_actuator_torque_actual_get 88 (rom_of stub_api) 0 7 stub_init =
     stub_load st_torque 0 7 stub_init \<and>
   z_impl_actuator_velocity_actual_get 88 (rom_of stub_api) 0 7 stub_init =
     stub_load st_velocity 0 7 stub_init \<and>
   z_impl_actuator_position_actual_get 88 (rom_of stub_api) 0 7 stub_init =
     stub_load st_position 0 7 stub_init"
  using present_slot_forwards
    [where rom = "rom_of stub_api" and dev = 0 and ENOSYS = 88
       and mode = ACTUATOR_POSITION_CONTROL and sett = ACTUATOR_SETTING_TORQUE_KP
       and val = 7 and s = stub_init]
  by (simp add: rom_of_def stub_api_def)

subsection \<open>No check but the slot\<close>

text \<open>
  C5. A call of any entry point with any arguments (a control mode and a setting
  identifier are arbitrary integers here, inside or outside the enumerators' range; a
  value pointer is any address, whatever the memory holds there) has exactly two
  outcomes: \<open>-ENOSYS\<close> with the state untouched when the slot is \<open>NULL\<close>, and otherwise
  whatever the callback does with the arguments of the call. No argument is inspected
  and no other result is produced by the entry point itself.
\<close>

theorem facade_adds_no_check:
  "actuator_invoke ENOSYS rom dev c s =
     (case op_slot (api (rom dev)) dev c of
        None \<Rightarrow> (- ENOSYS, s)
      | Some g \<Rightarrow> g s)"
  by (cases c) (simp_all add: z_impl_defs split: option.split)

text \<open>
  At the stub: control mode 7 (no such enumerator), setting \<open>-1\<close> and setting 40000
  (above \<open>ACTUATOR_SETTING_MAX\<close>) with the pair \<open>(-2, +500000)\<close> all reach the callback.
\<close>

theorem facade_adds_no_check_witness:
  "actuator_invoke 88 (rom_of stub_api) 0 (Control_mode_set 7) stub_init =
     (0, stub_init\<lparr>drv := (drv stub_init)\<lparr>st_mode := 7\<rparr>\<rparr>) \<and>
   actuator_invoke 88 (rom_of stub_api) 0 (Setting_set (- 1) 8) stub_init =
     (0, stub_init\<lparr>drv := (drv stub_init)
        \<lparr>st_settings := [(- 1, \<lparr>integer_value = - 2, factional_value = 500000\<rparr>)]\<rparr>\<rparr>) \<and>
   actuator_invoke 88 (rom_of stub_api) 0 (Setting_set 40000 8) stub_init =
     (0, stub_init\<lparr>drv := (drv stub_init)
        \<lparr>st_settings := [(40000, \<lparr>integer_value = - 2, factional_value = 500000\<rparr>)]\<rparr>\<rparr>) \<and>
   ACTUATOR_SETTING_MAX < 40000"
  using facade_adds_no_check [of 88 "rom_of stub_api" 0 "Control_mode_set 7" stub_init]
    facade_adds_no_check [of 88 "rom_of stub_api" 0 "Setting_set (- 1) 8" stub_init]
    facade_adds_no_check [of 88 "rom_of stub_api" 0 "Setting_set 40000 8" stub_init]
  by (simp add: stub_defs setting_defs)

subsection \<open>Independence of the slots\<close>

text \<open>
  C7. The outcome of a call depends on the table only through the slot of that call: two
  tables that hold the same callback there give the same outcome, however they differ
  in the other thirteen slots. In particular the table may be cut down to that one slot,
  every other slot \<open>NULL\<close>, without changing the outcome: no operation needs another
  slot to be present.
\<close>

theorem slots_independent:
  "(same_slot c (api (rom dev)) (api (rom' dev)) \<longrightarrow>
      actuator_invoke ENOSYS rom dev c s = actuator_invoke ENOSYS rom' dev c s) \<and>
   actuator_invoke ENOSYS (rom_of (only_slot c (api (rom dev)))) dev c s =
     actuator_invoke ENOSYS rom dev c s"
  by (cases c) (simp_all add: z_impl_defs rom_of_def no_capabilities_def)

text \<open>
  The full stub and the position-only stub agree on \<open>position_target_set\<close> and on
  nothing about torque or velocity; setting the position target to the 1.25 at address 7
  succeeds on both with the same state.
\<close>

theorem slots_independent_witness:
  "same_slot (Position_target_set 7) stub_api stub_position_api \<and>
   actuator_invoke 88 (rom_of stub_api) 0 (Position_target_set 7) stub_init =
     actuator_invoke 88 (rom_of stub_position_api) 0 (Position_target_set 7) stub_init \<and>
   actuator_invoke 88 (rom_of stub_position_api) 0 (Position_target_set 7) stub_init =
     (0, stub_init\<lparr>drv := (drv stub_init)
        \<lparr>st_position := \<lparr>integer_value = 1, factional_value = 250000\<rparr>\<rparr>\<rparr>) \<and>
   torque_target_set stub_position_api = None"
proof -
  have same: "same_slot (Position_target_set 7)
      (api (rom_of stub_api 0)) (api (rom_of stub_position_api 0))"
    by (simp add: rom_of_def stub_api_def stub_position_api_def no_capabilities_def)
  show ?thesis
    using same slots_independent
      [of "Position_target_set 7" "rom_of stub_api" 0 "rom_of stub_position_api" 88 stub_init]
    by (simp add: stub_defs z_impl_defs)
qed

subsection \<open>One scheme, fourteen instances\<close>

text \<open>
  C8. Each of the fourteen entry points equals the specification's dispatch scheme,
  instantiated with the entry point's own slot and with the call of a callback on
  \<open>dev\<close> and the entry point's arguments.
\<close>

theorem facade_is_generic_dispatch:
  "z_impl_actuator_control_mode_set ENOSYS rom dev mode s =
     generic_dispatch ENOSYS rom control_mode_set (\<lambda>f. f dev mode) dev s \<and>
   z_impl_actuator_enable ENOSYS rom dev s =
     generic_dispatch ENOSYS rom enable (\<lambda>f. f dev) dev s \<and>
   z_impl_actuator_disable ENOSYS rom dev s =
     generic_dispatch ENOSYS rom disable (\<lambda>f. f dev) dev s \<and>
   z_impl_actuator_setting_set ENOSYS rom dev sett val s =
     generic_dispatch ENOSYS rom setting_set (\<lambda>f. f dev sett val) dev s \<and>
   z_impl_actuator_setting_get ENOSYS rom dev sett val s =
     generic_dispatch ENOSYS rom setting_get (\<lambda>f. f dev sett val) dev s \<and>
   z_impl_actuator_torque_target_set ENOSYS rom dev val s =
     generic_dispatch ENOSYS rom torque_target_set (\<lambda>f. f dev val) dev s \<and>
   z_impl_actuator_torque_target_get ENOSYS rom dev val s =
     generic_dispatch ENOSYS rom torque_target_get (\<lambda>f. f dev val) dev s \<and>
   z_impl_actuator_velocity_target_set ENOSYS rom dev val s =
     generic_dispatch ENOSYS rom velocity_target_set (\<lambda>f. f dev val) dev s \<and>
   z_impl_actuator_velocity_target_get ENOSYS rom dev val s =
     generic_dispatch ENOSYS rom velocity_target_get (\<lambda>f. f dev val) dev s \<and>
   z_impl_actuator_position_target_set ENOSYS rom dev val s =
     generic_dispatch ENOSYS rom position_target_set (\<lambda>f. f dev val) dev s \<and>
   z_impl_actuator_position_target_get ENOSYS rom dev val s =
     generic_dispatch ENOSYS rom position_target_get (\<lambda>f. f dev val) dev s \<and>
   z_impl_actuator_torque_actual_get ENOSYS rom dev val s =
     generic_dispatch ENOSYS rom torque_actual_get (\<lambda>f. f dev val) dev s \<and>
   z_impl_actuator_velocity_actual_get ENOSYS rom dev val s =
     generic_dispatch ENOSYS rom velocity_actual_get (\<lambda>f. f dev val) dev s \<and>
   z_impl_actuator_position_actual_get ENOSYS rom dev val s =
     generic_dispatch ENOSYS rom position_actual_get (\<lambda>f. f dev val) dev s"
  by (intro conjI) (simp_all add: z_impl_defs generic_dispatch_def split: option.split)

subsection \<open>A failed "get" writes nothing\<close>

text \<open>
  C9. For each of the seven "get" entry points, when its slot is \<open>NULL\<close> the call returns
  \<open>-ENOSYS\<close>, the object \<open>val\<close> points to is what it was before the call, and so is the
  rest of the state.
\<close>

theorem absent_get_leaves_destination:
  fixes s :: "'d world"
  shows
  "(setting_get (api (rom dev)) = None \<longrightarrow>
      (let r = z_impl_actuator_setting_get ENOSYS rom dev sett val s
       in fst r = - ENOSYS \<and> ram (snd r) val = ram s val \<and> snd r = s)) \<and>
   (torque_target_get (api (rom dev)) = None \<longrightarrow>
      (let r = z_impl_actuator_torque_target_get ENOSYS rom dev val s
       in fst r = - ENOSYS \<and> ram (snd r) val = ram s val \<and> snd r = s)) \<and>
   (velocity_target_get (api (rom dev)) = None \<longrightarrow>
      (let r = z_impl_actuator_velocity_target_get ENOSYS rom dev val s
       in fst r = - ENOSYS \<and> ram (snd r) val = ram s val \<and> snd r = s)) \<and>
   (position_target_get (api (rom dev)) = None \<longrightarrow>
      (let r = z_impl_actuator_position_target_get ENOSYS rom dev val s
       in fst r = - ENOSYS \<and> ram (snd r) val = ram s val \<and> snd r = s)) \<and>
   (torque_actual_get (api (rom dev)) = None \<longrightarrow>
      (let r = z_impl_actuator_torque_actual_get ENOSYS rom dev val s
       in fst r = - ENOSYS \<and> ram (snd r) val = ram s val \<and> snd r = s)) \<and>
   (velocity_actual_get (api (rom dev)) = None \<longrightarrow>
      (let r = z_impl_actuator_velocity_actual_get ENOSYS rom dev val s
       in fst r = - ENOSYS \<and> ram (snd r) val = ram s val \<and> snd r = s)) \<and>
   (position_actual_get (api (rom dev)) = None \<longrightarrow>
      (let r = z_impl_actuator_position_actual_get ENOSYS rom dev val s
       in fst r = - ENOSYS \<and> ram (snd r) val = ram s val \<and> snd r = s))"
  by (intro conjI impI) (simp_all add: z_impl_defs)

text \<open>
  The theorem at the table with no capability: after each failed "get" with destination
  address 9, that address still holds the 0 it held.
\<close>

theorem absent_get_leaves_destination_witness:
  "(let r = z_impl_actuator_setting_get 88 (rom_of no_capabilities) 0 ACTUATOR_SETTING_MOTOR_POLES 9 stub_init
    in fst r = - 88 \<and> ram (snd r) 9 = Some zero_value \<and> snd r = stub_init) \<and>
   (let r = z_impl_actuator_torque_target_get 88 (rom_of no_capabilities) 0 9 stub_init
    in fst r = - 88 \<and> ram (snd r) 9 = Some zero_value \<and> snd r = stub_init) \<and>
   (let r = z_impl_actuator_velocity_target_get 88 (rom_of no_capabilities) 0 9 stub_init
    in fst r = - 88 \<and> ram (snd r) 9 = Some zero_value \<and> snd r = stub_init) \<and>
   (let r = z_impl_actuator_position_target_get 88 (rom_of no_capabilities) 0 9 stub_init
    in fst r = - 88 \<and> ram (snd r) 9 = Some zero_value \<and> snd r = stub_init) \<and>
   (let r = z_impl_actuator_torque_actual_get 88 (rom_of no_capabilities) 0 9 stub_init
    in fst r = - 88 \<and> ram (snd r) 9 = Some zero_value \<and> snd r = stub_init) \<and>
   (let r = z_impl_actuator_velocity_actual_get 88 (rom_of no_capabilities) 0 9 stub_init
    in fst r = - 88 \<and> ram (snd r) 9 = Some zero_value \<and> snd r = stub_init) \<and>
   (let r = z_impl_actuator_position_actual_get 88 (rom_of no_capabilities) 0 9 stub_init
    in fst r = - 88 \<and> ram (snd r) 9 = Some zero_value \<and> snd r = stub_init)"
  using absent_get_leaves_destination
    [where rom = "rom_of no_capabilities" and dev = 0 and ENOSYS = 88
       and sett = ACTUATOR_SETTING_MOTOR_POLES and val = 9 and s = stub_init]
  by (simp add: rom_of_def no_capabilities_def stub_init_def)

subsection \<open>Values are passed as they are\<close>

text \<open>
  C10. A caller stores an arbitrary pair of \<open>int32_t\<close> fields at \<open>val\<close> and calls one of
  the four "set" entry points that take a value. Whatever the pair (signs that disagree,
  a fractional part of a unit or more), the pair is a value of the type, and when the
  slot holds a callback the call is that callback on the same pointer and on the state
  in which \<open>val\<close> holds exactly that pair.
\<close>

theorem set_forwards_every_pair:
  fixes s :: "'d world"
  shows
  "(let v = \<lparr>integer_value = i, factional_value = f\<rparr>;
        s' = s\<lparr>ram := (ram s)(val \<mapsto> v)\<rparr>
    in integer_value v = i \<and> factional_value v = f \<and> ram s' val = Some v \<and>
       (\<forall>g. setting_set (api (rom dev)) = Some g \<longrightarrow>
          z_impl_actuator_setting_set ENOSYS rom dev sett val s' = g dev sett val s') \<and>
       (\<forall>g. torque_target_set (api (rom dev)) = Some g \<longrightarrow>
          z_impl_actuator_torque_target_set ENOSYS rom dev val s' = g dev val s') \<and>
       (\<forall>g. velocity_target_set (api (rom dev)) = Some g \<longrightarrow>
          z_impl_actuator_velocity_target_set ENOSYS rom dev val s' = g dev val s') \<and>
       (\<forall>g. position_target_set (api (rom dev)) = Some g \<longrightarrow>
          z_impl_actuator_position_target_set ENOSYS rom dev val s' = g dev val s'))"
  unfolding Let_def by (intro conjI allI impI) (simp_all add: z_impl_defs)

text \<open>
  At the stub: the pair \<open>(-2, +500000)\<close>, whose signs disagree, is stored by the stub as
  the position target and as setting \<open>ACTUATOR_SETTING_POSITION_KP\<close> exactly as written,
  and so is \<open>(0, 1500000)\<close>, whose fractional part is more than a unit, as the torque
  target.
\<close>

theorem set_forwards_every_pair_witness:
  "(let v = \<lparr>integer_value = - 2, factional_value = 500000\<rparr>;
        s' = stub_init\<lparr>ram := (ram stub_init)(11 \<mapsto> v)\<rparr>
    in \<not> signs_agree v \<and>
       z_impl_actuator_position_target_set 88 (rom_of stub_api) 0 11 s' =
         (0, s'\<lparr>drv := (drv s')\<lparr>st_position := v\<rparr>\<rparr>) \<and>
       z_impl_actuator_setting_set 88 (rom_of stub_api) 0 ACTUATOR_SETTING_POSITION_KP 11 s' =
         (0, s'\<lparr>drv := (drv s')\<lparr>st_settings := [(ACTUATOR_SETTING_POSITION_KP, v)]\<rparr>\<rparr>)) \<and>
   (let w = \<lparr>integer_value = 0, factional_value = 1500000\<rparr>;
        s' = stub_init\<lparr>ram := (ram stub_init)(11 \<mapsto> w)\<rparr>
    in \<not> sub_unit w \<and>
       z_impl_actuator_torque_target_set 88 (rom_of stub_api) 0 11 s' =
         (0, s'\<lparr>drv := (drv s')\<lparr>st_torque := w\<rparr>\<rparr>) \<and>
       z_impl_actuator_velocity_target_set 88 (rom_of stub_api) 0 11 s' =
         (0, s'\<lparr>drv := (drv s')\<lparr>st_velocity := w\<rparr>\<rparr>))"
  using set_forwards_every_pair
      [where rom = "rom_of stub_api" and dev = 0 and ENOSYS = 88 and i = "- 2" and f = 500000
         and sett = ACTUATOR_SETTING_POSITION_KP and val = 11 and s = stub_init]
    set_forwards_every_pair
      [where rom = "rom_of stub_api" and dev = 0 and ENOSYS = 88 and i = 0 and f = 1500000
         and sett = ACTUATOR_SETTING_POSITION_KP and val = 11 and s = stub_init]
  by (simp add: Let_def rom_of_def stub_api_def stub_setting_set_def stub_store_def
      stub_init_def signs_agree_def sub_unit_def)

subsection \<open>The setting enumeration\<close>

lemma common_settings_eq:
  "common_settings = [0, 1, 2, 3, 4, 5, 6, 7, 8, 9, 10, 11, 12, 13, 14, 15]"
  by (simp add: common_settings_def setting_defs)

lemma common_count_eq: "ACTUATOR_SETTING_COMMON_COUNT = 16"
  by (simp add: setting_defs)

lemma set_common_settings:
  "set common_settings = {v. 0 \<le> v \<and> v < ACTUATOR_SETTING_COMMON_COUNT}"
proof -
  have "{v::int. 0 \<le> v \<and> v < 16} = set [0..15]"
    by auto
  also have "[0..15::int] = [0, 1, 2, 3, 4, 5, 6, 7, 8, 9, 10, 11, 12, 13, 14, 15]"
    by (simp add: upto.simps)
  finally show ?thesis
    by (simp only: common_settings_eq common_count_eq)
qed

lemma private_range_eq:
  "{v. ACTUATOR_SETTING_PRIV_START \<le> v \<and> v \<le> ACTUATOR_SETTING_MAX} =
   {v. 0 \<le> v \<and> v \<le> ACTUATOR_SETTING_MAX} - set common_settings"
  unfolding set_common_settings by (auto simp: setting_defs)

lemma enumerators_bounded:
  "list_all (\<lambda>v. 0 \<le> v \<and> v \<le> ACTUATOR_SETTING_MAX) setting_enumerators"
  by (simp add: setting_enumerators_def common_settings_eq) (simp add: setting_defs)

text \<open>
  C6, as stated, fails in its last part: not every setting identifier is bounded by
  \<open>ACTUATOR_SETTING_MAX\<close>. The identifier 40000 is above it, and
  \<open>z_impl_actuator_setting_set\<close> takes it like any other: the stub's callback is reached
  and records the 1.25 at address 7 under 40000.
\<close>

theorem setting_bound_counterexample:
  "ACTUATOR_SETTING_MAX < (40000 :: actuator_setting) \<and>
   z_impl_actuator_setting_set 88 (rom_of stub_api) 0 40000 7 stub_init =
     (0, stub_init\<lparr>drv := (drv stub_init)
        \<lparr>st_settings := [(40000, \<lparr>integer_value = 1, factional_value = 250000\<rparr>)]\<rparr>\<rparr>)"
  by (simp add: z_impl_actuator_setting_set_def stub_defs setting_defs)

text \<open>
  C6, amended. The bound is one on the enumeration as declared, not on the values a
  caller may pass. The sixteen enumerators declared before
  \<open>ACTUATOR_SETTING_COMMON_COUNT\<close> (five for each of the torque, velocity and position
  loops, and the pole count) are pairwise different and are exactly the values from 0,
  the first enumerator, up to but not including \<open>ACTUATOR_SETTING_COMMON_COUNT\<close>. The
  private range starts at \<open>ACTUATOR_SETTING_PRIV_START\<close>, which equals
  \<open>ACTUATOR_SETTING_COMMON_COUNT\<close>, so between 0 and \<open>ACTUATOR_SETTING_MAX\<close> it is
  everything that is not common. \<open>ACTUATOR_SETTING_MAX\<close> is \<open>INT16_MAX\<close>, 32767, and
  every declared enumerator lies between 0 and it.
\<close>

theorem setting_enumeration_partition:
  "length common_settings = 16 \<and> distinct common_settings \<and>
   set common_settings = {v. 0 \<le> v \<and> v < ACTUATOR_SETTING_COMMON_COUNT} \<and>
   ACTUATOR_SETTING_PRIV_START = ACTUATOR_SETTING_COMMON_COUNT \<and>
   {v. ACTUATOR_SETTING_PRIV_START \<le> v \<and> v \<le> ACTUATOR_SETTING_MAX} =
     {v. 0 \<le> v \<and> v \<le> ACTUATOR_SETTING_MAX} - set common_settings \<and>
   ACTUATOR_SETTING_MAX = INT16_MAX \<and> INT16_MAX = 32767 \<and>
   list_all (\<lambda>v. 0 \<le> v \<and> v \<le> ACTUATOR_SETTING_MAX) setting_enumerators"
proof -
  have "length common_settings = 16 \<and> distinct common_settings"
    by (simp add: common_settings_eq)
  moreover have "ACTUATOR_SETTING_PRIV_START = ACTUATOR_SETTING_COMMON_COUNT"
    by (simp add: ACTUATOR_SETTING_PRIV_START_def)
  moreover have "ACTUATOR_SETTING_MAX = INT16_MAX \<and> INT16_MAX = 32767"
    by (simp add: ACTUATOR_SETTING_MAX_def INT16_MAX_def)
  ultimately show ?thesis
    using set_common_settings private_range_eq enumerators_bounded by blast
qed

subsection \<open>Sign agreement of a fixed-point value\<close>

lemma to_rat_frac:
  "actuator_value_to_rat v =
   rat_of_int (1000000 * sint (integer_value v) + sint (factional_value v)) / 1000000"
  by (simp add: actuator_value_to_rat_def add_divide_distrib)

lemma div_million_cancel: "(x / 1000000 = y / 1000000) = (x = y)" for x y :: rat
  by (simp only: divide_cancel_right) simp

lemma to_rat_eq_iff:
  "(actuator_value_to_rat v = actuator_value_to_rat w) =
   (1000000 * sint (integer_value v) + sint (factional_value v) =
    1000000 * sint (integer_value w) + sint (factional_value w))"
  by (simp only: to_rat_frac div_million_cancel of_int_eq_iff)

text \<open>
  The arithmetic behind uniqueness: two integer parts whose scaled difference is made
  up by fractional parts below a million differ by at most one, and a difference of one
  forces fractional parts of opposite sign on the wrong sides.
\<close>

lemma parts_unique:
  fixes a b c d :: int
  assumes e: "1000000 * a + c = 1000000 * b + d"
    and c: "\<bar>c\<bar> < 1000000" and d: "\<bar>d\<bar> < 1000000"
    and sv: "(0 \<le> a \<and> 0 \<le> c) \<or> (a \<le> 0 \<and> c \<le> 0)"
    and sw: "(0 \<le> b \<and> 0 \<le> d) \<or> (b \<le> 0 \<and> d \<le> 0)"
  shows "a = b \<and> c = d"
proof -
  have "a - b < 2" "- 2 < a - b"
    using e c d by linarith+
  then consider "a - b = 1" | "a - b = 0" | "a - b = - 1"
    by linarith
  then show ?thesis
  proof cases
    case 1
    then have "d - c = 1000000" using e by linarith
    then have "0 < d" "c < 0" using c d by linarith+
    then have "0 \<le> b" "a \<le> 0" using sv sw by linarith+
    then show ?thesis using 1 by linarith
  next
    case 2
    then show ?thesis using e by linarith
  next
    case 3
    then have "c - d = 1000000" using e by linarith
    then have "0 < c" "d < 0" using c d by linarith+
    then have "0 \<le> a" "b \<le> 0" using sv sw by linarith+
    then show ?thesis using 3 by linarith
  qed
qed

lemma sint32_inject: "sint (a :: int32_t) = sint b \<Longrightarrow> a = b"
  by (simp add: signed_word_eqI)

lemma normal_form_inject:
  assumes "signs_agree v" "sub_unit v" "signs_agree w" "sub_unit w"
  shows "(actuator_value_to_rat v = actuator_value_to_rat w) = (v = w)"
proof
  assume "actuator_value_to_rat v = actuator_value_to_rat w"
  then have e: "1000000 * sint (integer_value v) + sint (factional_value v) =
      1000000 * sint (integer_value w) + sint (factional_value w)"
    by (simp only: to_rat_eq_iff)
  have "sint (integer_value v) = sint (integer_value w) \<and>
      sint (factional_value v) = sint (factional_value w)"
    using e assms unfolding signs_agree_def sub_unit_def by (intro parts_unique)
  then have "integer_value v = integer_value w \<and> factional_value v = factional_value w"
    by (simp add: sint32_inject)
  then show "v = w" by simp
next
  assume "v = w"
  then show "actuator_value_to_rat v = actuator_value_to_rat w" by simp
qed

lemma minus_one_and_a_half:
  "signs_agree \<lparr>integer_value = - 1, factional_value = - 500000\<rparr> \<and>
   sub_unit \<lparr>integer_value = - 1, factional_value = - 500000\<rparr> \<and>
   actuator_value_to_rat \<lparr>integer_value = - 1, factional_value = - 500000\<rparr> = - 3 / 2"
  by (simp add: signs_agree_def sub_unit_def actuator_value_to_rat_def)

text \<open>
  C3, as stated, fails on the type: the pair \<open>(-2, +500000)\<close> is a value of
  \<open>struct actuator_value\<close>, it denotes \<open>-1.5\<close>, which is not zero, and its parts disagree
  in sign.
\<close>

theorem sign_agreement_counterexample:
  "actuator_value_to_rat \<lparr>integer_value = - 2, factional_value = 500000\<rparr> = - 3 / 2 \<and>
   actuator_value_to_rat \<lparr>integer_value = - 2, factional_value = 500000\<rparr> \<noteq> 0 \<and>
   \<not> signs_agree \<lparr>integer_value = - 2, factional_value = 500000\<rparr>"
  by (simp add: actuator_value_to_rat_def signs_agree_def)

text \<open>
  C3, amended. Sign agreement is a convention for writing a value, and together with a
  fractional part below one unit it fixes the pair: two pairs that both keep the
  convention denote the same number only when they are the same pair. For \<open>-1.5\<close> the
  pair that keeps the convention is \<open>-1\<close> and \<open>-500000\<close>, the header's example, and no
  other; \<open>(-2, +500000)\<close> denotes \<open>-1.5\<close> too, but is not it.
\<close>

theorem normal_form_unique:
  "(signs_agree v \<and> sub_unit v \<and> signs_agree w \<and> sub_unit w \<longrightarrow>
      (actuator_value_to_rat v = actuator_value_to_rat w) = (v = w)) \<and>
   ((signs_agree v \<and> sub_unit v \<and> actuator_value_to_rat v = - 3 / 2) =
      (v = \<lparr>integer_value = - 1, factional_value = - 500000\<rparr>))"
proof (intro conjI impI)
  assume "signs_agree v \<and> sub_unit v \<and> signs_agree w \<and> sub_unit w"
  then show "(actuator_value_to_rat v = actuator_value_to_rat w) = (v = w)"
    by (simp add: normal_form_inject)
next
  let ?m = "\<lparr>integer_value = - 1, factional_value = - 500000\<rparr>"
  show "(signs_agree v \<and> sub_unit v \<and> actuator_value_to_rat v = - 3 / 2) = (v = ?m)"
  proof
    assume a: "signs_agree v \<and> sub_unit v \<and> actuator_value_to_rat v = - 3 / 2"
    then have "actuator_value_to_rat v = actuator_value_to_rat ?m"
      using minus_one_and_a_half by simp
    then show "v = ?m"
      using a minus_one_and_a_half normal_form_inject [of v ?m] by blast
  next
    assume "v = ?m"
    then show "signs_agree v \<and> sub_unit v \<and> actuator_value_to_rat v = - 3 / 2"
      using minus_one_and_a_half by simp
  qed
qed

text \<open>
  The theorem at \<open>-1.5\<close> and \<open>+1.5\<close>, both written by the convention: different pairs,
  different numbers.
\<close>

theorem normal_form_unique_witness:
  "signs_agree \<lparr>integer_value = - 1, factional_value = - 500000\<rparr> \<and>
   sub_unit \<lparr>integer_value = - 1, factional_value = - 500000\<rparr> \<and>
   signs_agree \<lparr>integer_value = 1, factional_value = 500000\<rparr> \<and>
   sub_unit \<lparr>integer_value = 1, factional_value = 500000\<rparr> \<and>
   actuator_value_to_rat \<lparr>integer_value = - 1, factional_value = - 500000\<rparr> \<noteq>
     actuator_value_to_rat \<lparr>integer_value = 1, factional_value = 500000\<rparr>"
  using normal_form_unique
    [of "\<lparr>integer_value = - 1, factional_value = - 500000\<rparr>"
        "\<lparr>integer_value = 1, factional_value = 500000\<rparr>"]
  by (simp add: signs_agree_def sub_unit_def)

subsection \<open>Round trip through the fixed-point representation\<close>

lemma sint_word_of_int_32:
  fixes i :: int
  assumes "- (2 ^ 31) < i" "i < 2 ^ 31"
  shows "sint (word_of_int i :: int32_t) = i"
  using assms by (simp add: sint_sbintrunc' signed_take_bit_int_eq_self)

lemma trunc_rat_nonneg:
  "0 \<le> q \<Longrightarrow>
   0 \<le> trunc_rat q \<and> rat_of_int (trunc_rat q) \<le> q \<and> q < rat_of_int (trunc_rat q) + 1"
  unfolding trunc_rat_def by (simp add: floor_less_iff) linarith

lemma trunc_rat_neg:
  "q < 0 \<Longrightarrow>
   trunc_rat q \<le> 0 \<and> q \<le> rat_of_int (trunc_rat q) \<and> rat_of_int (trunc_rat q) - 1 < q"
  unfolding trunc_rat_def by simp linarith

lemma trunc_rat_abs: "\<bar>rat_of_int (trunc_rat q)\<bar> \<le> \<bar>q\<bar>"
  using trunc_rat_nonneg [of q] trunc_rat_neg [of q]
  by (cases "0 \<le> q") (simp_all add: abs_if)

lemma trunc_rat_err: "\<bar>q - rat_of_int (trunc_rat q)\<bar> < 1"
  using trunc_rat_nonneg [of q] trunc_rat_neg [of q]
  by (cases "0 \<le> q") (simp_all add: abs_if)

lemma int_abs_less_of_rat:
  fixes i n :: int
  assumes "\<bar>rat_of_int i\<bar> < rat_of_int n"
  shows "- n < i \<and> i < n"
proof -
  have "rat_of_int \<bar>i\<bar> < rat_of_int n"
    using assms by simp
  then have "\<bar>i\<bar> < n"
    by (simp only: of_int_less_iff)
  then show ?thesis by linarith
qed

text \<open>Below \<open>2^31\<close> in magnitude nothing wraps: the fields hold the two truncations.\<close>

lemma from_rat_parts:
  assumes "\<bar>q\<bar> < 2 ^ 31"
  shows "sint (integer_value (actuator_value_from_rat q)) = trunc_rat q"
    and "sint (factional_value (actuator_value_from_rat q)) =
         trunc_rat ((q - rat_of_int (trunc_rat q)) * 1000000)"
proof -
  have "\<bar>rat_of_int (trunc_rat q)\<bar> < rat_of_int (2 ^ 31)"
    using trunc_rat_abs [of q] assms by simp
  then have "- (2 ^ 31) < trunc_rat q \<and> trunc_rat q < 2 ^ 31"
    by (rule int_abs_less_of_rat)
  then show "sint (integer_value (actuator_value_from_rat q)) = trunc_rat q"
    by (simp add: actuator_value_from_rat_def Let_def sint_word_of_int_32)
  let ?r = "(q - rat_of_int (trunc_rat q)) * 1000000"
  have "\<bar>?r\<bar> < 1000000"
    using trunc_rat_err [of q] by (simp add: abs_mult)
  then have "\<bar>rat_of_int (trunc_rat ?r)\<bar> < rat_of_int 1000000"
    using trunc_rat_abs [of ?r] by simp
  then have "- 1000000 < trunc_rat ?r \<and> trunc_rat ?r < 1000000"
    by (rule int_abs_less_of_rat)
  then have "- (2 ^ 31) < trunc_rat ?r \<and> trunc_rat ?r < 2 ^ 31"
    by simp
  then show "sint (factional_value (actuator_value_from_rat q)) = trunc_rat ?r"
    by (simp add: actuator_value_from_rat_def Let_def sint_word_of_int_32)
qed

lemma abs_div_million: "\<bar>x\<bar> < 1 \<Longrightarrow> \<bar>x / 1000000\<bar> < 1 / 1000000" for x :: rat
  by simp

lemma from_rat_examples:
  "actuator_value_from_rat (- 3 / 2) = \<lparr>integer_value = - 1, factional_value = - 500000\<rparr>"
  "actuator_value_from_rat (1 / 3) = \<lparr>integer_value = 0, factional_value = 333333\<rparr>"
  by code_simp+

text \<open>
  C4. A rational \<open>q\<close> of magnitude below \<open>2^31\<close>, converted to a pair and read back with
  the header's formula, comes back within one millionth of \<open>q\<close>.
\<close>

theorem from_rat_round_trip:
  assumes "\<bar>q\<bar> < 2 ^ 31"
  shows "\<bar>actuator_value_to_rat (actuator_value_from_rat q) - q\<bar> < 1 / 1000000"
proof -
  let ?r = "(q - rat_of_int (trunc_rat q)) * 1000000"
  have eq: "actuator_value_to_rat (actuator_value_from_rat q) - q =
      (rat_of_int (trunc_rat ?r) - ?r) / 1000000"
    by (simp add: actuator_value_to_rat_def from_rat_parts [OF assms] field_simps)
  have "\<bar>rat_of_int (trunc_rat ?r) - ?r\<bar> < 1"
    using trunc_rat_err [of ?r] by (simp only: abs_minus_commute)
  then have "\<bar>(rat_of_int (trunc_rat ?r) - ?r) / 1000000\<bar> < 1 / 1000000"
    by (rule abs_div_million)
  then show ?thesis
    by (simp only: eq)
qed

text \<open>
  The theorem at one third: the pair is 0 and 333333, which reads back as 0.333333, a
  third of a millionth short.
\<close>

theorem from_rat_round_trip_witness:
  "\<bar>1 / 3 :: rat\<bar> < 2 ^ 31 \<and>
   \<bar>actuator_value_to_rat (actuator_value_from_rat (1 / 3)) - 1 / 3\<bar> < 1 / 1000000 \<and>
   actuator_value_to_rat (actuator_value_from_rat (1 / 3)) = 333333 / 1000000"
proof -
  have small: "\<bar>1 / 3 :: rat\<bar> < 2 ^ 31"
    by simp
  have "actuator_value_to_rat (actuator_value_from_rat (1 / 3)) = 333333 / 1000000"
    by (simp add: from_rat_examples actuator_value_to_rat_def)
  then show ?thesis
    using small from_rat_round_trip [OF small] by simp
qed

end
